theory Spec2Isabelle
  imports Complex_Main "HOL-Library.Sublist" "HOL-Library.Product_Lexorder"
    "HOL-Library.List_Lexorder" "HOL-Library.Char_ord"
begin

chapter \<open>The model\<close>

section \<open>Strings: decimal rendering of counters\<close>

text \<open>
  Python's \<^verbatim>\<open>str(index)\<close> and \<^verbatim>\<open>"{}".format(index)\<close> for a non-negative integer:
  the decimal digits, most significant first, without leading zeros.
\<close>

definition digit_char :: "nat \<Rightarrow> char" where
  "digit_char d = char_of (48 + d)"

fun str_nat :: "nat \<Rightarrow> string" where
  "str_nat n = (if n < 10 then [digit_char n]
                else str_nat (n div 10) @ [digit_char (n mod 10)])"

declare str_nat.simps [simp del]

text \<open>Reading a decimal numeral back; only used to show that \<open>str_nat\<close> is injective.\<close>

definition digit_val :: "char \<Rightarrow> nat" where
  "digit_val c = of_char c - 48"

definition nat_of_str :: "string \<Rightarrow> nat" where
  "nat_of_str s = foldl (\<lambda>a c. 10 * a + digit_val c) 0 s"

section \<open>The document, as far as the name generators read it\<close>

record view =
  view_Name :: string
  view_IsTemplate :: bool

record sheet =
  sheet_SheetNumber :: string

record document =
  doc_views :: "view list"
  doc_sheets :: "sheet list"

section \<open>unique_view_name (MultipleUnits-script.py and KeyPlan-script.py)\<close>

text \<open>\<^verbatim>\<open>"{} ({})".format(base_name, index)\<close>\<close>

definition view_candidate :: "string \<Rightarrow> nat \<Rightarrow> string" where
  "view_candidate base_name index = base_name @ '' ('' @ str_nat index @ '')''"

text \<open>
  The \<^verbatim>\<open>while True\<close> loop of \<^verbatim>\<open>unique_view_name\<close>. The set \<^verbatim>\<open>existing\<close> is built from the
  collector's views, so it is the set of a list.
\<close>

function unique_view_name_loop :: "string list \<Rightarrow> string \<Rightarrow> nat \<Rightarrow> string" where
  "unique_view_name_loop existing base_name index =
     (let candidate = view_candidate base_name index
      in if candidate \<notin> set existing then candidate
         else unique_view_name_loop existing base_name (index + 1))"
  by pat_completeness auto

text \<open>\<^verbatim>\<open>existing = set(v.Name for v in FilteredElementCollector(doc).OfClass(View))\<close>\<close>

definition existing_view_names :: "document \<Rightarrow> string list" where
  "existing_view_names doc = map view_Name (doc_views doc)"

definition unique_view_name :: "document \<Rightarrow> string \<Rightarrow> string" where
  "unique_view_name doc base_name =
     (let existing = existing_view_names doc
      in if base_name \<notin> set existing then base_name
         else unique_view_name_loop existing base_name 1)"

section \<open>unique_sheet_number (MultipleUnits-script.py)\<close>

text \<open>\<^verbatim>\<open>"{}-copy{}".format(base_number, "" if index == 1 else str(index))\<close>\<close>

definition sheet_candidate :: "string \<Rightarrow> nat \<Rightarrow> string" where
  "sheet_candidate base_number index =
     base_number @ ''-copy'' @ (if index = 1 then '''' else str_nat index)"

function unique_sheet_number_loop :: "string list \<Rightarrow> string \<Rightarrow> nat \<Rightarrow> string" where
  "unique_sheet_number_loop existing base_number index =
     (let candidate = sheet_candidate base_number index
      in if candidate \<notin> set existing then candidate
         else unique_sheet_number_loop existing base_number (index + 1))"
  by pat_completeness auto

text \<open>
  \<^verbatim>\<open>existing = set(s.SheetNumber for s in ... if s.SheetNumber)\<close>: empty sheet numbers are
  left out of the set.
\<close>

definition existing_sheet_numbers :: "document \<Rightarrow> string list" where
  "existing_sheet_numbers doc =
     filter (\<lambda>n. n \<noteq> []) (map sheet_SheetNumber (doc_sheets doc))"

text \<open>
  The argument is \<open>None\<close> for Python's \<^verbatim>\<open>None\<close>; \<^verbatim>\<open>not base_number\<close> holds for \<^verbatim>\<open>None\<close> and
  for the empty string.
\<close>

definition unique_sheet_number :: "document \<Rightarrow> string option \<Rightarrow> string" where
  "unique_sheet_number doc base_number =
     (case base_number of
        None \<Rightarrow> []
      | Some b \<Rightarrow>
          if b = [] then []
          else let existing = existing_sheet_numbers doc
               in if b \<notin> set existing then b
                  else unique_sheet_number_loop existing b 1)"

section \<open>The measure of the two counter loops\<close>

text \<open>
  The counters still to be tried that are taken: a finite set, because the candidates of
  different counters differ and \<open>existing\<close> is finite. It shrinks at every iteration.
\<close>

definition taken_from :: "(nat \<Rightarrow> string) \<Rightarrow> string list \<Rightarrow> nat \<Rightarrow> nat set" where
  "taken_from cand existing index = {i. index \<le> i \<and> cand i \<in> set existing}"

section \<open>Example documents\<close>

definition doc_demo :: document where
  "doc_demo = \<lparr>doc_views = [\<lparr>view_Name = ''A'', view_IsTemplate = False\<rparr>,
                             \<lparr>view_Name = ''A (1)'', view_IsTemplate = False\<rparr>],
              doc_sheets = [\<lparr>sheet_SheetNumber = ''S1''\<rparr>, \<lparr>sheet_SheetNumber = ''S1-copy''\<rparr>,
                            \<lparr>sheet_SheetNumber = ''''\<rparr>]\<rparr>"

definition doc_demo2 :: document where
  "doc_demo2 = \<lparr>doc_views = [\<lparr>view_Name = ''A (1)'', view_IsTemplate = True\<rparr>,
                             \<lparr>view_Name = ''A'', view_IsTemplate = False\<rparr>,
                             \<lparr>view_Name = ''A'', view_IsTemplate = False\<rparr>],
              doc_sheets = [\<lparr>sheet_SheetNumber = ''S1-copy''\<rparr>, \<lparr>sheet_SheetNumber = ''S1''\<rparr>]\<rparr>"

definition doc_three_sheets :: document where
  "doc_three_sheets =
     \<lparr>doc_views = [],
      doc_sheets = [\<lparr>sheet_SheetNumber = ''A101''\<rparr>, \<lparr>sheet_SheetNumber = ''A101-copy''\<rparr>,
                    \<lparr>sheet_SheetNumber = ''A101-copy2''\<rparr>]\<rparr>"

section \<open>Points, distances and curves\<close>

text \<open>
  Python floats are modelled by the reals: arithmetic is exact, and the constants
  \<^verbatim>\<open>1e-6\<close> and \<^verbatim>\<open>1e-9\<close> are the rationals they denote. A curve is given by the points of its
  tessellation.
\<close>

datatype XYZ = XYZ (X: real) (Y: real) (Z: real)

definition DistanceTo :: "XYZ \<Rightarrow> XYZ \<Rightarrow> real" where
  "DistanceTo p q = sqrt ((X p - X q)\<^sup>2 + (Y p - Y q)\<^sup>2 + (Z p - Z q)\<^sup>2)"


definition coalesce_tol :: real where
  "coalesce_tol = 1 / 10 ^ 6"






text \<open>Proof-level view of the shoelace sum: the sum of the cross terms of adjacent points.\<close>

definition cross_xy :: "XYZ \<Rightarrow> XYZ \<Rightarrow> real" where
  "cross_xy p q = X p * Y q - X q * Y p"

fun shoelace :: "XYZ list \<Rightarrow> real" where
  "shoelace (p # q # rest) = cross_xy p q + shoelace (q # rest)"
| "shoelace _ = 0"











section \<open>Cyclic point sequences\<close>




section \<open>Centroid of a loop (MultipleUnits-script.py)\<close>





section \<open>Boundary loops of an area\<close>



datatype 'a outcome = Raises | Returns 'a















section \<open>Clamping a viewport inside the titleblock (MultipleUnits-script.py)\<close>








section \<open>Doors and the rotation of a view towards a door (MultipleUnits-script.py)\<close>

text \<open>
  A door as the scripts read it. The strings are empty where the host has no value or the
  access raises (the script replaces both by the empty string). A curve location gives the
  two end points and the midpoint, \<open>None\<close> when the location has no curve.
\<close>

datatype location =
    LocationPoint XYZ
  | LocationCurve "(XYZ \<times> XYZ \<times> XYZ) option"
  | NoLocation

record symbol =
  sym_Name :: string
  sym_FamilyName :: string

record door =
  door_Id :: nat
  door_Name :: string
  door_type_name :: string
  door_Symbol :: "symbol option"
  door_Location :: location
  door_FacingOrientation :: "XYZ option"

definition GetLength :: "XYZ \<Rightarrow> real" where
  "GetLength v = sqrt ((X v)\<^sup>2 + (Y v)\<^sup>2 + (Z v)\<^sup>2)"

definition Normalize :: "XYZ \<Rightarrow> XYZ" where
  "Normalize v = XYZ (X v / GetLength v) (Y v / GetLength v) (Z v / GetLength v)"

definition CrossProduct :: "XYZ \<Rightarrow> XYZ \<Rightarrow> XYZ" where
  "CrossProduct a b = XYZ (Y a * Z b - Z a * Y b) (Z a * X b - X a * Z b) (X a * Y b - Y a * X b)"

definition DotProduct :: "XYZ \<Rightarrow> XYZ \<Rightarrow> real" where
  "DotProduct a b = X a * X b + Y a * Y b + Z a * Z b"

definition BasisY :: XYZ where "BasisY = XYZ 0 1 0"

definition BasisZ :: XYZ where "BasisZ = XYZ 0 0 1"

text \<open>\<^verbatim>\<open>math.atan2(y, x)\<close>, the angle of the point \<open>(x, y)\<close> in \<open>(-pi, pi]\<close>.\<close>

definition atan2 :: "real \<Rightarrow> real \<Rightarrow> real" where
  "atan2 y x =
     (if x > 0 then arctan (y / x)
      else if x < 0 \<and> y \<ge> 0 then arctan (y / x) + pi
      else if x < 0 then arctan (y / x) - pi
      else if y > 0 then pi / 2
      else if y < 0 then - pi / 2
      else 0)"

definition near_zero :: real where
  "near_zero = 1 / 10 ^ 9"

text \<open>
  The view that is rotated: its name, the elements the collector finds in it (identifier and
  name), its origin, and the rotation parameter found under the built-in identifier and
  under the name \<^verbatim>\<open>View Rotation\<close> (value, read-only flag).
\<close>

record plan_view =
  pv_Name :: string
  pv_elements :: "(nat \<times> string) list"
  pv_Origin :: XYZ
  pv_builtin_rotation :: "(real \<times> bool) option"
  pv_named_rotation :: "(real \<times> bool) option"

text \<open>The calls into the host that change the document, in the order they are made.\<close>

datatype host_call =
    SetCropBoxVisible
  | Regenerate
  | RotateElement nat XYZ XYZ real
  | SetRotationParam real

text \<open>\<open>fmt2\<close> is \<^verbatim>\<open>"{:.2f}".format\<close>; \<^verbatim>\<open>math.degrees\<close> multiplies by \<open>180 / pi\<close>.\<close>

definition rotate_view_to_door ::
  "(real \<Rightarrow> string) \<Rightarrow> plan_view \<Rightarrow> door \<Rightarrow> ((bool \<times> string) \<times> host_call list) outcome" where
  "rotate_view_to_door fmt2 view d =
     (case door_FacingOrientation d of
        None \<Rightarrow> Raises
      | Some facing \<Rightarrow>
          let vec = XYZ (X facing) (Y facing) 0
          in if GetLength vec < near_zero
             then Returns ((False, ''Door facing vector is zero.''), [])
             else
               let vec = Normalize vec;
                   y_axis = BasisY;
                   z_axis = BasisZ;
                   angle = atan2 (DotProduct (CrossProduct y_axis vec) z_axis)
                                 (DotProduct y_axis vec)
               in if \<bar>angle\<bar> < near_zero
                  then Returns ((False, ''Computed rotation angle is near zero.''), [])
                  else
                    let calls = [SetCropBoxVisible, Regenerate];
                        target_name = pv_Name view;
                        crop_elem = (if target_name \<noteq> []
                                     then find (\<lambda>e. snd e = target_name) (pv_elements view)
                                     else None)
                    in case crop_elem of
                         Some e \<Rightarrow>
                           Returns ((True, ''Rotated crop element '' @ str_nat (fst e) @ '' by ''
                                           @ fmt2 (angle * 180 / pi) @ '' deg.''),
                                    calls @ [RotateElement (fst e) (pv_Origin view) z_axis angle])
                       | None \<Rightarrow>
                           let angle_param = (case pv_builtin_rotation view of
                                                Some p \<Rightarrow> Some p
                                              | None \<Rightarrow> pv_named_rotation view)
                           in case angle_param of
                                Some (v, read_only) \<Rightarrow>
                                  if \<not> read_only
                                  then Returns ((True, ''Rotated view parameter by ''
                                                  @ fmt2 (angle * 180 / pi) @ '' deg.''),
                                                calls @ [SetRotationParam (v + angle)])
                                  else Returns ((False,
                                     ''View rotation parameter is read-only and no crop element found.''),
                                     calls)
                              | None \<Rightarrow>
                                  Returns ((False,
                                     ''No crop element found and view rotation parameter is unavailable or read-only.''),
                                     calls))"

definition door_facing_up :: door where
  "door_facing_up = \<lparr>door_Id = 7, door_Name = ''Entry Door'', door_type_name = ''36x84'',
      door_Symbol = None, door_Location = LocationPoint (XYZ 1 1 0),
      door_FacingOrientation = Some (XYZ 0 0 1)\<rparr>"

definition door_facing_east :: door where
  "door_facing_east = door_facing_up\<lparr>door_FacingOrientation := Some (XYZ 1 0 0)\<rparr>"

definition view_with_crop :: plan_view where
  "view_with_crop = \<lparr>pv_Name = ''Marketing - A'', pv_elements = [(11, ''x''), (12, ''Marketing - A'')],
      pv_Origin = XYZ 0 0 0, pv_builtin_rotation = None, pv_named_rotation = Some (0, False)\<rparr>"

section \<open>The precondition checks of the two main functions\<close>

text \<open>
  What \<^verbatim>\<open>main\<close> reads before its checks: whether the active view is a plan view, the views
  (with their template flag), the names of the filled region types and the family and type
  names of the titleblock types.
\<close>

record project = document +
  proj_active_view_is_plan :: bool
  proj_fill_types :: "string list"
  proj_titleblock_types :: "(string \<times> string) list"

text \<open>
  What the user and the document see of a run: blocking alerts (message, title) and the
  document transactions that are opened (by name).
\<close>

datatype ui_event = Alert string string | Transaction string

definition opens_transaction :: "ui_event list \<Rightarrow> bool" where
  "opens_transaction evs = list_ex (\<lambda>e. case e of Transaction n \<Rightarrow> True | _ \<Rightarrow> False) evs"

text \<open>
  \<^verbatim>\<open>main\<close> of MultipleUnits-script.py up to the last check. \<open>rest\<close> is the remainder of the
  function (the dialog loop, the transaction and the report), given the sorted lists.
\<close>

definition main_marketing ::
  "('a project_scheme \<Rightarrow> view list \<Rightarrow> string list \<Rightarrow> (string \<times> string) list
      \<Rightarrow> ui_event list \<times> 'a project_scheme)
   \<Rightarrow> 'a project_scheme \<Rightarrow> ui_event list \<times> 'a project_scheme" where
  "main_marketing rest doc =
     (if \<not> proj_active_view_is_plan doc
      then ([Alert ''Active view must be a plan view.'' ''Make Marketing View''], doc)
      else
        let templates = filter view_IsTemplate (doc_views doc);
            templates_sorted = sort_key view_Name templates;
            titleblocks_sorted = sort_key (\<lambda>t. fst t @ '': '' @ snd t) (proj_titleblock_types doc);
            fill_types_sorted = sort_key (\<lambda>f. f) (proj_fill_types doc)
        in if templates_sorted = []
           then ([Alert ''No view templates found for this view type.'' ''Make Marketing View''],
                 doc)
           else if fill_types_sorted = []
           then ([Alert ''No filled region types found.'' ''Make Marketing View''], doc)
           else if titleblocks_sorted = []
           then ([Alert ''No titleblock types found.'' ''Make Marketing View''], doc)
           else rest doc templates_sorted fill_types_sorted titleblocks_sorted)"

text \<open>\<^verbatim>\<open>main\<close> of KeyPlan-script.py up to the last check.\<close>

definition main_keyplan ::
  "('a project_scheme \<Rightarrow> view list \<Rightarrow> string list \<Rightarrow> ui_event list \<times> 'a project_scheme)
   \<Rightarrow> 'a project_scheme \<Rightarrow> ui_event list \<times> 'a project_scheme" where
  "main_keyplan rest doc =
     (if \<not> proj_active_view_is_plan doc
      then ([Alert ''Active view must be a plan view.'' ''Make Keyplans''], doc)
      else
        let templates = filter view_IsTemplate (doc_views doc);
            templates_sorted = sort_key view_Name templates;
            fill_types_sorted = sort_key (\<lambda>f. f) (proj_fill_types doc)
        in if templates_sorted = []
           then ([Alert ''No view templates found for this view type.'' ''Make Keyplans''], doc)
           else if fill_types_sorted = []
           then ([Alert ''No filled region types found.'' ''Make Keyplans''], doc)
           else rest doc templates_sorted fill_types_sorted)"

definition project_without_templates :: project where
  "project_without_templates =
     \<lparr>doc_views = [\<lparr>view_Name = ''Level 1'', view_IsTemplate = False\<rparr>],
      doc_sheets = [],
      proj_active_view_is_plan = True,
      proj_fill_types = [''Solid Black''],
      proj_titleblock_types = [(''A1 metric'', ''A1'')]\<rparr>"

section \<open>The parameter copy utility (changeparameter-script.py)\<close>

datatype storage_type = ST_String | ST_Double | ST_Integer | ST_ElementId | ST_None

text \<open>
  A parameter as the script reads it; \<open>None\<close> is Python's \<^verbatim>\<open>None\<close>. An element is its
  identifier and its parameters by name (\<^verbatim>\<open>LookupParameter\<close>).
\<close>

record parameter =
  param_StorageType :: storage_type
  param_AsString :: "string option"
  param_AsValueString :: "string option"
  param_IsReadOnly :: bool

record element =
  elem_Id :: nat
  elem_params :: "string \<rightharpoonup> parameter"










section \<open>Finding the entry door of an area (MultipleUnits-script.py)\<close>





















chapter \<open>Properties of the model\<close>

section \<open>Termination of the two counter loops\<close>

lemma digit_val_digit_char: "d < 10 \<Longrightarrow> digit_val (digit_char d) = d"
  by (simp add: digit_val_def digit_char_def)

lemma nat_of_str_snoc: "nat_of_str (s @ [c]) = 10 * nat_of_str s + digit_val c"
  by (simp add: nat_of_str_def)

lemma nat_of_str_str_nat: "nat_of_str (str_nat n) = n"
proof (induction n rule: str_nat.induct)
  case (1 n)
  show ?case
  proof (cases "n < 10")
    case True
    then show ?thesis
      by (simp add: str_nat.simps [of n] nat_of_str_def digit_val_digit_char)
  next
    case False
    then have "nat_of_str (str_nat n) = 10 * (n div 10) + n mod 10"
      using "1.IH" by (simp add: str_nat.simps [of n] nat_of_str_snoc digit_val_digit_char)
    then show ?thesis by simp
  qed
qed

lemma str_nat_inj: "str_nat m = str_nat n \<Longrightarrow> m = n"
  by (metis nat_of_str_str_nat)

lemma str_nat_not_Nil: "str_nat n \<noteq> []"
  by (subst str_nat.simps) simp

lemma view_candidate_inj: "view_candidate b i = view_candidate b j \<Longrightarrow> i = j"
  by (simp add: view_candidate_def str_nat_inj)

lemma sheet_candidate_inj: "sheet_candidate b i = sheet_candidate b j \<Longrightarrow> i = j"
  using str_nat_not_Nil [of i] str_nat_not_Nil [of j]
  by (auto simp: sheet_candidate_def dest: str_nat_inj split: if_splits)

lemma finite_taken_from:
  assumes "\<And>i j. cand i = cand j \<Longrightarrow> i = j"
  shows "finite (taken_from cand existing index)"
proof -
  have "inj cand" using assms by (auto simp: inj_on_def)
  then have "finite (cand -` set existing)" by (simp add: finite_vimageI)
  moreover have "taken_from cand existing index \<subseteq> cand -` set existing"
    by (auto simp: taken_from_def)
  ultimately show ?thesis by (rule rev_finite_subset)
qed

lemma taken_from_decreases:
  assumes inj: "\<And>i j. cand i = cand j \<Longrightarrow> i = j"
    and taken: "cand index \<in> set existing"
  shows "card (taken_from cand existing (index + 1)) < card (taken_from cand existing index)"
proof (rule psubset_card_mono)
  show "finite (taken_from cand existing index)" using inj by (rule finite_taken_from)
  have "index \<in> taken_from cand existing index" using taken by (simp add: taken_from_def)
  moreover have "index \<notin> taken_from cand existing (index + 1)" by (simp add: taken_from_def)
  moreover have "taken_from cand existing (index + 1) \<subseteq> taken_from cand existing index"
    by (auto simp: taken_from_def)
  ultimately show "taken_from cand existing (index + 1) \<subset> taken_from cand existing index"
    by blast
qed

termination unique_view_name_loop
proof (relation "measure (\<lambda>(existing, base_name, index).
                   card (taken_from (view_candidate base_name) existing index))")
  show "wf (measure (\<lambda>(existing, base_name, index).
                   card (taken_from (view_candidate base_name) existing index)))"
    by simp
next
  fix existing :: "string list" and base_name :: string and index :: nat and candidate
  assume "candidate = view_candidate base_name index" and "\<not> candidate \<notin> set existing"
  then have "view_candidate base_name index \<in> set existing" by simp
  then have "card (taken_from (view_candidate base_name) existing (index + 1))
             < card (taken_from (view_candidate base_name) existing index)"
    using taken_from_decreases [of "view_candidate base_name" index existing] view_candidate_inj
    by blast
  then show "((existing, base_name, index + 1), existing, base_name, index)
             \<in> measure (\<lambda>(existing, base_name, index).
                   card (taken_from (view_candidate base_name) existing index))"
    by simp
qed

termination unique_sheet_number_loop
proof (relation "measure (\<lambda>(existing, base_number, index).
                   card (taken_from (sheet_candidate base_number) existing index))")
  show "wf (measure (\<lambda>(existing, base_number, index).
                   card (taken_from (sheet_candidate base_number) existing index)))"
    by simp
next
  fix existing :: "string list" and base_number :: string and index :: nat and candidate
  assume "candidate = sheet_candidate base_number index" and "\<not> candidate \<notin> set existing"
  then have "sheet_candidate base_number index \<in> set existing" by simp
  then have "card (taken_from (sheet_candidate base_number) existing (index + 1))
             < card (taken_from (sheet_candidate base_number) existing index)"
    using taken_from_decreases [of "sheet_candidate base_number" index existing]
      sheet_candidate_inj
    by blast
  then show "((existing, base_number, index + 1), existing, base_number, index)
             \<in> measure (\<lambda>(existing, base_number, index).
                   card (taken_from (sheet_candidate base_number) existing index))"
    by simp
qed

declare unique_view_name_loop.simps [simp del]

declare unique_sheet_number_loop.simps [simp del]

section \<open>What the counter loops return\<close>

lemma first_free_unique:
  fixes cand :: "nat \<Rightarrow> string"
  assumes "cand k \<notin> S" "\<forall>j. i \<le> j \<and> j < k \<longrightarrow> cand j \<in> S" "i \<le> k"
    and "cand k' \<notin> S" "\<forall>j. i \<le> j \<and> j < k' \<longrightarrow> cand j \<in> S" "i \<le> k'"
  shows "k = k'"
proof (rule ccontr)
  assume "k \<noteq> k'"
  then consider "k < k'" | "k' < k" by linarith
  then show False
  proof cases
    case 1
    then show ?thesis using assms by blast
  next
    case 2
    then show ?thesis using assms by blast
  qed
qed

lemma unique_view_name_loop_first_free:
  "\<exists>k\<ge>index. unique_view_name_loop existing b index = view_candidate b k
      \<and> view_candidate b k \<notin> set existing
      \<and> (\<forall>j. index \<le> j \<and> j < k \<longrightarrow> view_candidate b j \<in> set existing)"
proof (induction existing b index rule: unique_view_name_loop.induct)
  case (1 existing b index)
  show ?case
  proof (cases "view_candidate b index \<in> set existing")
    case False
    then have "unique_view_name_loop existing b index = view_candidate b index"
      by (subst unique_view_name_loop.simps) simp
    with False show ?thesis by auto
  next
    case True
    then obtain k where k: "index + 1 \<le> k"
        "unique_view_name_loop existing b (index + 1) = view_candidate b k"
        "view_candidate b k \<notin> set existing"
        "\<forall>j. index + 1 \<le> j \<and> j < k \<longrightarrow> view_candidate b j \<in> set existing"
      using "1.IH" by auto
    have step: "unique_view_name_loop existing b index
                = unique_view_name_loop existing b (index + 1)"
      using True by (subst unique_view_name_loop.simps) simp
    have "\<forall>j. index \<le> j \<and> j < k \<longrightarrow> view_candidate b j \<in> set existing"
    proof (intro allI impI)
      fix j assume j: "index \<le> j \<and> j < k"
      show "view_candidate b j \<in> set existing"
      proof (cases "j = index")
        case True
        with \<open>view_candidate b index \<in> set existing\<close> show ?thesis by simp
      next
        case False
        with j have "index + 1 \<le> j \<and> j < k" by simp
        with k(4) show ?thesis by blast
      qed
    qed
    with k step show ?thesis by (intro exI [of _ k]) simp
  qed
qed

lemma unique_sheet_number_loop_first_free:
  "\<exists>k\<ge>index. unique_sheet_number_loop existing b index = sheet_candidate b k
      \<and> sheet_candidate b k \<notin> set existing
      \<and> (\<forall>j. index \<le> j \<and> j < k \<longrightarrow> sheet_candidate b j \<in> set existing)"
proof (induction existing b index rule: unique_sheet_number_loop.induct)
  case (1 existing b index)
  show ?case
  proof (cases "sheet_candidate b index \<in> set existing")
    case False
    then have "unique_sheet_number_loop existing b index = sheet_candidate b index"
      by (subst unique_sheet_number_loop.simps) simp
    with False show ?thesis by auto
  next
    case True
    then obtain k where k: "index + 1 \<le> k"
        "unique_sheet_number_loop existing b (index + 1) = sheet_candidate b k"
        "sheet_candidate b k \<notin> set existing"
        "\<forall>j. index + 1 \<le> j \<and> j < k \<longrightarrow> sheet_candidate b j \<in> set existing"
      using "1.IH" by auto
    have step: "unique_sheet_number_loop existing b index
                = unique_sheet_number_loop existing b (index + 1)"
      using True by (subst unique_sheet_number_loop.simps) simp
    have "\<forall>j. index \<le> j \<and> j < k \<longrightarrow> sheet_candidate b j \<in> set existing"
    proof (intro allI impI)
      fix j assume j: "index \<le> j \<and> j < k"
      show "sheet_candidate b j \<in> set existing"
      proof (cases "j = index")
        case True
        with \<open>sheet_candidate b index \<in> set existing\<close> show ?thesis by simp
      next
        case False
        with j have "index + 1 \<le> j \<and> j < k" by simp
        with k(4) show ?thesis by blast
      qed
    qed
    with k step show ?thesis by (intro exI [of _ k]) simp
  qed
qed

lemma unique_view_name_loop_set_cong:
  assumes "set existing = set existing'"
  shows "unique_view_name_loop existing b index = unique_view_name_loop existing' b index"
proof -
  obtain k where k: "index \<le> k" "unique_view_name_loop existing b index = view_candidate b k"
      "view_candidate b k \<notin> set existing"
      "\<forall>j. index \<le> j \<and> j < k \<longrightarrow> view_candidate b j \<in> set existing"
    using unique_view_name_loop_first_free [of index existing b] by blast
  obtain k' where k': "index \<le> k'"
      "unique_view_name_loop existing' b index = view_candidate b k'"
      "view_candidate b k' \<notin> set existing"
      "\<forall>j. index \<le> j \<and> j < k' \<longrightarrow> view_candidate b j \<in> set existing"
    using unique_view_name_loop_first_free [of index existing' b] assms by auto
  have "k = k'"
    using first_free_unique [of "view_candidate b" k "set existing" index k'] k k' by blast
  with k(2) k'(2) show ?thesis by simp
qed

lemma unique_sheet_number_loop_set_cong:
  assumes "set existing = set existing'"
  shows "unique_sheet_number_loop existing b index = unique_sheet_number_loop existing' b index"
proof -
  obtain k where k: "index \<le> k"
      "unique_sheet_number_loop existing b index = sheet_candidate b k"
      "sheet_candidate b k \<notin> set existing"
      "\<forall>j. index \<le> j \<and> j < k \<longrightarrow> sheet_candidate b j \<in> set existing"
    using unique_sheet_number_loop_first_free [of index existing b] by blast
  obtain k' where k': "index \<le> k'"
      "unique_sheet_number_loop existing' b index = sheet_candidate b k'"
      "sheet_candidate b k' \<notin> set existing"
      "\<forall>j. index \<le> j \<and> j < k' \<longrightarrow> sheet_candidate b j \<in> set existing"
    using unique_sheet_number_loop_first_free [of index existing' b] assms by auto
  have "k = k'"
    using first_free_unique [of "sheet_candidate b" k "set existing" index k'] k k' by blast
  with k(2) k'(2) show ?thesis by simp
qed

section \<open>Claims about the name generators\<close>

lemma Nil_notin_existing_sheet_numbers: "[] \<notin> set (existing_sheet_numbers doc)"
  by (simp add: existing_sheet_numbers_def)

text \<open>
  Claim C1. For every document and base name, \<open>unique_view_name\<close> and \<open>unique_sheet_number\<close>
  return a string that is not in the set of existing names they built; the result depends
  only on that set and the base (two documents with the same set of names give the same
  result); and a result other than the base is the base followed by a counter suffix, every
  smaller counter being taken. Both functions are total: their loops are defined with a
  termination proof.
\<close>

theorem unique_names_fresh_deterministic:
  "unique_view_name doc b \<notin> set (existing_view_names doc)
   \<and> unique_sheet_number doc n \<notin> set (existing_sheet_numbers doc)
   \<and> (set (existing_view_names doc) = set (existing_view_names doc')
        \<longrightarrow> unique_view_name doc b = unique_view_name doc' b)
   \<and> (set (existing_sheet_numbers doc) = set (existing_sheet_numbers doc')
        \<longrightarrow> unique_sheet_number doc n = unique_sheet_number doc' n)
   \<and> (unique_view_name doc b \<noteq> b \<longrightarrow>
        (\<exists>k\<ge>1. unique_view_name doc b = view_candidate b k
           \<and> (\<forall>j. 1 \<le> j \<and> j < k \<longrightarrow> view_candidate b j \<in> set (existing_view_names doc))))
   \<and> (unique_sheet_number doc (Some s) \<noteq> s \<longrightarrow>
        (\<exists>k\<ge>1. unique_sheet_number doc (Some s) = sheet_candidate s k
           \<and> (\<forall>j. 1 \<le> j \<and> j < k \<longrightarrow>
                 sheet_candidate s j \<in> set (existing_sheet_numbers doc))))"
proof (intro conjI impI)
  show "unique_view_name doc b \<notin> set (existing_view_names doc)"
    using unique_view_name_loop_first_free [of 1 "existing_view_names doc" b]
    by (auto simp: unique_view_name_def Let_def)
  show "unique_sheet_number doc n \<notin> set (existing_sheet_numbers doc)"
  proof (cases n)
    case None
    then show ?thesis by (simp add: unique_sheet_number_def Nil_notin_existing_sheet_numbers)
  next
    case (Some s)
    then show ?thesis
      using unique_sheet_number_loop_first_free [of 1 "existing_sheet_numbers doc" s]
      by (auto simp: unique_sheet_number_def Let_def Nil_notin_existing_sheet_numbers)
  qed
next
  assume "set (existing_view_names doc) = set (existing_view_names doc')"
  then show "unique_view_name doc b = unique_view_name doc' b"
    using unique_view_name_loop_set_cong [of "existing_view_names doc" "existing_view_names doc'" b 1]
    by (simp add: unique_view_name_def Let_def)
next
  assume "set (existing_sheet_numbers doc) = set (existing_sheet_numbers doc')"
  then show "unique_sheet_number doc n = unique_sheet_number doc' n"
    using unique_sheet_number_loop_set_cong
      [of "existing_sheet_numbers doc" "existing_sheet_numbers doc'" _ 1]
    by (simp add: unique_sheet_number_def Let_def split: option.splits)
next
  assume "unique_view_name doc b \<noteq> b"
  then have "unique_view_name doc b = unique_view_name_loop (existing_view_names doc) b 1"
    by (simp add: unique_view_name_def Let_def split: if_splits)
  then show "\<exists>k\<ge>1. unique_view_name doc b = view_candidate b k
           \<and> (\<forall>j. 1 \<le> j \<and> j < k \<longrightarrow> view_candidate b j \<in> set (existing_view_names doc))"
    using unique_view_name_loop_first_free [of 1 "existing_view_names doc" b]
    by metis
next
  assume "unique_sheet_number doc (Some s) \<noteq> s"
  then have "unique_sheet_number doc (Some s)
             = unique_sheet_number_loop (existing_sheet_numbers doc) s 1"
    by (simp add: unique_sheet_number_def Let_def split: if_splits)
  then show "\<exists>k\<ge>1. unique_sheet_number doc (Some s) = sheet_candidate s k
           \<and> (\<forall>j. 1 \<le> j \<and> j < k \<longrightarrow>
                 sheet_candidate s j \<in> set (existing_sheet_numbers doc))"
    using unique_sheet_number_loop_first_free [of 1 "existing_sheet_numbers doc" s]
    by metis
qed

theorem unique_names_fresh_deterministic_witness:
  "unique_view_name doc_demo ''A'' = ''A (2)''
   \<and> unique_view_name doc_demo2 ''A'' = ''A (2)''
   \<and> ''A (2)'' \<notin> set (existing_view_names doc_demo)
   \<and> unique_sheet_number doc_demo (Some ''S1'') = ''S1-copy2''
   \<and> unique_sheet_number doc_demo2 (Some ''S1'') = ''S1-copy2''
   \<and> ''S1-copy2'' \<notin> set (existing_sheet_numbers doc_demo)
   \<and> (\<exists>k\<ge>1. ''A (2)'' = view_candidate ''A'' k)
   \<and> (\<exists>k\<ge>1. ''S1-copy2'' = sheet_candidate ''S1'' k)"
proof -
  have v: "unique_view_name doc_demo ''A'' = ''A (2)''" by code_simp
  have s: "unique_sheet_number doc_demo (Some ''S1'') = ''S1-copy2''" by code_simp
  have ev: "set (existing_view_names doc_demo) = set (existing_view_names doc_demo2)"
    by (simp add: existing_view_names_def doc_demo_def doc_demo2_def insert_commute)
  have es: "set (existing_sheet_numbers doc_demo) = set (existing_sheet_numbers doc_demo2)"
    by (simp add: existing_sheet_numbers_def doc_demo_def doc_demo2_def insert_commute)
  have nv: "unique_view_name doc_demo ''A'' \<noteq> ''A''" by (simp add: v)
  have ns: "unique_sheet_number doc_demo (Some ''S1'') \<noteq> ''S1''" by (simp add: s)
  show ?thesis
    using unique_names_fresh_deterministic
      [of doc_demo "''A''" "Some ''S1''" doc_demo2 "''S1''"] v s ev es nv ns
    by metis
qed

text \<open>
  Claim C10. \<open>unique_sheet_number\<close> returns the empty string for \<^verbatim>\<open>None\<close> and for the empty
  base number, whatever the document holds; for a non-empty base \<open>B\<close> that is among the
  existing sheet numbers it returns the first of \<^verbatim>\<open>B-copy\<close>, \<^verbatim>\<open>B-copy2\<close>, \<^verbatim>\<open>B-copy3\<close>, ...
  that is not an existing sheet number.
\<close>

theorem unique_sheet_number_candidates:
  "unique_sheet_number doc None = []
   \<and> unique_sheet_number doc (Some []) = []
   \<and> (B \<noteq> [] \<and> B \<in> set (existing_sheet_numbers doc) \<longrightarrow>
        (\<exists>k\<ge>1. unique_sheet_number doc (Some B) = sheet_candidate B k
           \<and> sheet_candidate B k \<notin> set (existing_sheet_numbers doc)
           \<and> (\<forall>j. 1 \<le> j \<and> j < k \<longrightarrow>
                 sheet_candidate B j \<in> set (existing_sheet_numbers doc))))
   \<and> sheet_candidate B 1 = B @ ''-copy''
   \<and> sheet_candidate B 2 = B @ ''-copy2''
   \<and> sheet_candidate B 3 = B @ ''-copy3''
   \<and> (\<forall>k\<ge>2. sheet_candidate B k = B @ ''-copy'' @ str_nat k)"
proof (intro conjI impI)
  show "unique_sheet_number doc None = []" by (simp add: unique_sheet_number_def)
  show "unique_sheet_number doc (Some []) = []" by (simp add: unique_sheet_number_def)
  show "sheet_candidate B 1 = B @ ''-copy''" by (simp add: sheet_candidate_def)
  show "sheet_candidate B 2 = B @ ''-copy2''" by code_simp
  show "sheet_candidate B 3 = B @ ''-copy3''" by code_simp
  show "\<forall>k\<ge>2. sheet_candidate B k = B @ ''-copy'' @ str_nat k"
    by (simp add: sheet_candidate_def)
next
  assume "B \<noteq> [] \<and> B \<in> set (existing_sheet_numbers doc)"
  then have "unique_sheet_number doc (Some B)
             = unique_sheet_number_loop (existing_sheet_numbers doc) B 1"
    by (simp add: unique_sheet_number_def)
  then show "\<exists>k\<ge>1. unique_sheet_number doc (Some B) = sheet_candidate B k
           \<and> sheet_candidate B k \<notin> set (existing_sheet_numbers doc)
           \<and> (\<forall>j. 1 \<le> j \<and> j < k \<longrightarrow>
                 sheet_candidate B j \<in> set (existing_sheet_numbers doc))"
    using unique_sheet_number_loop_first_free [of 1 "existing_sheet_numbers doc" B]
    by metis
qed

theorem unique_sheet_number_candidates_witness:
  "''A101'' \<noteq> [] \<and> ''A101'' \<in> set (existing_sheet_numbers doc_three_sheets)
   \<and> unique_sheet_number doc_three_sheets (Some ''A101'') = ''A101-copy3''
   \<and> (\<exists>k\<ge>1. ''A101-copy3'' = sheet_candidate ''A101'' k
         \<and> (\<forall>j. 1 \<le> j \<and> j < k \<longrightarrow>
               sheet_candidate ''A101'' j \<in> set (existing_sheet_numbers doc_three_sheets)))
   \<and> (2::nat) \<le> 12 \<and> sheet_candidate ''A101'' 12 = ''A101-copy12''"
proof -
  have m: "''A101'' \<noteq> [] \<and> ''A101'' \<in> set (existing_sheet_numbers doc_three_sheets)"
    by (simp add: existing_sheet_numbers_def doc_three_sheets_def)
  have r: "unique_sheet_number doc_three_sheets (Some ''A101'') = ''A101-copy3''"
    by code_simp
  have t: "''A101'' @ ''-copy'' @ str_nat 12 = ''A101-copy12''" by code_simp
  have "sheet_candidate ''A101'' 12 = ''A101'' @ ''-copy'' @ str_nat 12"
    using unique_sheet_number_candidates [of doc_three_sheets "''A101''"] by simp
  moreover have "\<exists>k\<ge>1. unique_sheet_number doc_three_sheets (Some ''A101'')
                         = sheet_candidate ''A101'' k
         \<and> (\<forall>j. 1 \<le> j \<and> j < k \<longrightarrow>
               sheet_candidate ''A101'' j \<in> set (existing_sheet_numbers doc_three_sheets))"
    using unique_sheet_number_candidates [of doc_three_sheets "''A101''"] m by blast
  ultimately show ?thesis using m r t by simp
qed

section \<open>Points, distances and curves\<close>



section \<open>The shoelace sum under rotation and reversal\<close>

lemma cross_xy_self [simp]: "cross_xy p p = 0"
  by (simp add: cross_xy_def)


lemma DistanceTo_self [simp]: "DistanceTo p p = 0"
  by (simp add: DistanceTo_def)


lemma coalesce_tol_pos: "0 < coalesce_tol"
  by (simp add: coalesce_tol_def)

lemma coalesce_tol_not_neg [simp]: "\<not> coalesce_tol < 0"
  by (simp add: coalesce_tol_def)



lemma shoelace_append:
  "xs \<noteq> [] \<Longrightarrow> ys \<noteq> [] \<Longrightarrow>
   shoelace (xs @ ys) = shoelace xs + cross_xy (last xs) (hd ys) + shoelace ys"
  by (induction xs rule: shoelace.induct) (auto simp: neq_Nil_conv)




























section \<open>Centroid of a loop (MultipleUnits-script.py)\<close>





section \<open>Boundary loops of an area\<close>














section \<open>Clamping a viewport inside the titleblock (MultipleUnits-script.py)\<close>



section \<open>Doors and the rotation of a view towards a door (MultipleUnits-script.py)\<close>

text \<open>
  Claim C8. When the door's facing vector, projected to the XY plane, is shorter than
  \<^verbatim>\<open>1e-9\<close>, \<open>rotate_view_to_door\<close> returns \<open>False\<close> with the reason string and makes no call
  into the host: nothing is rotated.
\<close>

theorem rotate_view_to_door_zero_facing:
  assumes "door_FacingOrientation d = Some facing"
    and "GetLength (XYZ (X facing) (Y facing) 0) < 1 / 10 ^ 9"
  shows "rotate_view_to_door fmt2 view d = Returns ((False, ''Door facing vector is zero.''), [])"
  using assms by (simp add: rotate_view_to_door_def near_zero_def)

theorem rotate_view_to_door_zero_facing_witness:
  "door_FacingOrientation door_facing_up = Some (XYZ 0 0 1)
   \<and> GetLength (XYZ (X (XYZ 0 0 1)) (Y (XYZ 0 0 1)) 0) < 1 / 10 ^ 9
   \<and> rotate_view_to_door (\<lambda>x. ''?'') view_with_crop door_facing_up
      = Returns ((False, ''Door facing vector is zero.''), [])"
proof -
  have a: "door_FacingOrientation door_facing_up = Some (XYZ 0 0 1)"
    by (simp add: door_facing_up_def)
  have b: "GetLength (XYZ (X (XYZ 0 0 1)) (Y (XYZ 0 0 1)) 0) < 1 / 10 ^ 9"
    by (simp add: GetLength_def)
  show ?thesis
    using rotate_view_to_door_zero_facing [OF a b, of "\<lambda>x. ''?''" view_with_crop] a b by simp
qed

section \<open>The precondition checks of the two main functions\<close>

lemma sort_key_Nil_iff: "sort_key f xs = [] \<longleftrightarrow> xs = []"
  by (metis length_0_conv length_sort)

text \<open>
  Claim C7. When the active view is not a plan view, or the document has no view template
  or no filled region type, or (marketing tool) no titleblock type, \<^verbatim>\<open>main\<close> shows one
  blocking alert and returns: the remainder of the function is not run, no transaction is
  opened and the document is unchanged.
\<close>

theorem main_precondition_failures_abort:
  "(\<not> proj_active_view_is_plan doc \<or> filter view_IsTemplate (doc_views doc) = []
      \<or> proj_fill_types doc = [] \<or> proj_titleblock_types doc = []
    \<longrightarrow> (\<exists>msg. main_marketing rest doc = ([Alert msg ''Make Marketing View''], doc))
        \<and> \<not> opens_transaction (fst (main_marketing rest doc))
        \<and> snd (main_marketing rest doc) = doc)
   \<and> (\<not> proj_active_view_is_plan doc \<or> filter view_IsTemplate (doc_views doc) = []
      \<or> proj_fill_types doc = []
    \<longrightarrow> (\<exists>msg. main_keyplan rest' doc = ([Alert msg ''Make Keyplans''], doc))
        \<and> \<not> opens_transaction (fst (main_keyplan rest' doc))
        \<and> snd (main_keyplan rest' doc) = doc)"
  by (auto simp: main_marketing_def main_keyplan_def Let_def sort_key_Nil_iff
      opens_transaction_def)

theorem main_precondition_failures_abort_witness:
  "filter view_IsTemplate (doc_views project_without_templates) = []
   \<and> main_marketing (\<lambda>d ts fs tbs. ([Transaction ''Make Marketing View''], d\<lparr>doc_views := []\<rparr>))
        project_without_templates
      = ([Alert ''No view templates found for this view type.'' ''Make Marketing View''],
         project_without_templates)
   \<and> main_keyplan (\<lambda>d ts fs. ([Transaction ''Create Keyplan Views''], d\<lparr>doc_views := []\<rparr>))
        project_without_templates
      = ([Alert ''No view templates found for this view type.'' ''Make Keyplans''],
         project_without_templates)"
proof -
  have a: "filter view_IsTemplate (doc_views project_without_templates) = []"
    by (simp add: project_without_templates_def)
  have b: "proj_active_view_is_plan project_without_templates"
    by (simp add: project_without_templates_def)
  show ?thesis
    using main_precondition_failures_abort
      [of project_without_templates
          "\<lambda>d ts fs tbs. ([Transaction ''Make Marketing View''], d\<lparr>doc_views := []\<rparr>)"
          "\<lambda>d ts fs. ([Transaction ''Create Keyplan Views''], d\<lparr>doc_views := []\<rparr>)"] a b
    by (auto simp: main_marketing_def main_keyplan_def Let_def)
qed

section \<open>The parameter copy utility (changeparameter-script.py)\<close>






section \<open>Finding the entry door of an area (MultipleUnits-script.py)\<close>















end
